theory Spec2Isabelle
  imports Complex_Main "HOL-Library.Word" "HOL-Library.Multiset"
begin

section \<open>JavaScript strings\<close>

text \<open>
  A JavaScript string is a sequence of UTF-16 code units; equality (\<open>===\<close>) is equality
  of the sequences. \<open>js\<close> turns an ASCII literal into such a sequence.
\<close>

type_synonym jsstring = "16 word list"

definition js :: "string \<Rightarrow> jsstring" where
  "js s = map of_char s"

text \<open>
  \<open>a || b\<close> where \<open>a\<close> is \<open>string | undefined\<close>: \<open>undefined\<close> and the empty string
  are falsy, every other string is truthy.
\<close>

definition or_str :: "jsstring option \<Rightarrow> jsstring \<Rightarrow> jsstring" where
  "or_str a b = (case a of None \<Rightarrow> b | Some s \<Rightarrow> if s = [] then b else s)"

section \<open>Errors and promises\<close>

text \<open>
  A thrown value. \<open>Error msg\<close> is \<open>new Error(msg)\<close>; \<open>ApiError status body\<close> is the
  error \<open>request\<close> throws on a response that is not ok (its message is built from the
  two); \<open>FetchRejected\<close> is a rejected \<open>fetch\<close> (network failure, timeout);
  \<open>SyntaxError\<close> is a body that \<open>response.json()\<close> cannot parse; \<open>TypeError\<close> is a
  property read on \<open>undefined\<close>.
  The outcome of a call that may throw, and of an awaited promise, is \<open>error + 'a\<close>:
  \<open>Inl\<close> is the throw (the rejection), \<open>Inr\<close> the returned (fulfilled) value.
\<close>

datatype error =
    Error jsstring
  | ApiError nat jsstring
  | FetchRejected
  | SyntaxError
  | TypeError

section \<open>openrouter.ts: configuration and construction\<close>

definition OPENROUTER_API_BASE :: jsstring where
  "OPENROUTER_API_BASE = js ''https://openrouter.ai/api/v1''"

definition DEFAULT_EMBED_MODEL :: jsstring where
  "DEFAULT_EMBED_MODEL = js ''openai/text-embedding-3-large''"

definition DEFAULT_CHAT_MODEL :: jsstring where
  "DEFAULT_CHAT_MODEL = js ''openai/gpt-4o-mini''"

text \<open>
  \<open>EMBEDDING_DIMENSIONS\<close> is an object literal: its own properties are the three entries
  of the table, and a property read on it also finds what it inherits from
  \<open>Object.prototype\<close> (functions, and the prototype itself under \<open>__proto__\<close>: none of
  them a number, all of them truthy).
\<close>

definition EMBEDDING_DIMENSIONS :: "(jsstring \<times> nat) list" where
  "EMBEDDING_DIMENSIONS =
     [(js ''openai/text-embedding-3-large'', 3072),
      (js ''openai/text-embedding-3-small'', 1536),
      (js ''openai/text-embedding-ada-002'', 1536)]"

definition Object_prototype_keys :: "jsstring list" where
  "Object_prototype_keys =
     [js ''constructor'', js ''hasOwnProperty'', js ''isPrototypeOf'',
      js ''propertyIsEnumerable'', js ''toLocaleString'', js ''toString'',
      js ''valueOf'', js ''__proto__'', js ''__defineGetter__'',
      js ''__defineSetter__'', js ''__lookupGetter__'', js ''__lookupSetter__'']"

datatype property = Undefined | Number nat | Inherited

definition get_property :: "(jsstring \<times> nat) list \<Rightarrow> jsstring \<Rightarrow> property" where
  "get_property obj key =
     (case map_of obj key of
        Some n \<Rightarrow> Number n
      | None \<Rightarrow> if key \<in> set Object_prototype_keys then Inherited else Undefined)"

record OpenRouterConfig =
  cfg_apiKey :: "jsstring option"
  cfg_embedModel :: "jsstring option"
  cfg_chatModel :: "jsstring option"
  cfg_baseUrl :: "jsstring option"

text \<open>The default argument \<open>config = {}\<close>.\<close>

definition empty_config :: OpenRouterConfig where
  "empty_config =
     \<lparr>cfg_apiKey = None, cfg_embedModel = None, cfg_chatModel = None, cfg_baseUrl = None\<rparr>"

text \<open>\<open>process.env\<close>: a variable that is not set reads as \<open>undefined\<close>.\<close>

type_synonym env = "jsstring \<rightharpoonup> jsstring"

record OpenRouterLLM =
  apiKey :: jsstring
  embedModel :: jsstring
  chatModel :: jsstring
  baseUrl :: jsstring

definition OpenRouterLLM_constructor :: "OpenRouterConfig \<Rightarrow> env \<Rightarrow> error + OpenRouterLLM" where
  "OpenRouterLLM_constructor config env =
     (let key = or_str (cfg_apiKey config) (or_str (env (js ''OPENROUTER_API_KEY'')) [])
      in if key = []
         then Inl (Error (js ''OpenRouter API key required. Set OPENROUTER_API_KEY environment variable.''))
         else Inr \<lparr>apiKey = key,
                   embedModel = or_str (cfg_embedModel config)
                                  (or_str (env (js ''QMD_EMBED_MODEL'')) DEFAULT_EMBED_MODEL),
                   chatModel = or_str (cfg_chatModel config)
                                 (or_str (env (js ''QMD_CHAT_MODEL'')) DEFAULT_CHAT_MODEL),
                   baseUrl = or_str (cfg_baseUrl config) OPENROUTER_API_BASE\<rparr>)"

text \<open>
  \<open>EMBEDDING_DIMENSIONS[this.embedModel] || 3072\<close>: \<open>undefined\<close> and \<open>0\<close> are falsy,
  an inherited property is truthy and is what the call returns.
\<close>

definition getEmbeddingDimensions :: "OpenRouterLLM \<Rightarrow> property" where
  "getEmbeddingDimensions this =
     (case get_property EMBEDDING_DIMENSIONS (embedModel this) of
        Undefined \<Rightarrow> Number 3072
      | Number n \<Rightarrow> if n = 0 then Number 3072 else Number n
      | Inherited \<Rightarrow> Inherited)"

section \<open>llm.ts: result types\<close>

text \<open>
  A JavaScript \<open>number\<close> that the code only passes on (an embedding component, a
  temperature) is a \<open>real\<close>. Record fields carry a prefix where two types of the source
  share a field name.
\<close>

record TokenLogProb =
  token :: jsstring
  logprob :: real

record EmbeddingResult =
  embedding :: "real list"
  emb_model :: jsstring

record GenerateResult =
  gen_text :: jsstring
  gen_model :: jsstring
  gen_logprobs :: "TokenLogProb list option"
  gen_done :: bool

record GenerateOptions =
  opt_model :: "jsstring option"
  maxTokens :: "nat option"
  temperature :: "real option"

record RerankDocument =
  doc_file :: jsstring
  doc_text :: jsstring
  doc_title :: "jsstring option"

record RerankDocumentResult =
  rr_file :: jsstring
  rr_score :: real
  rr_index :: nat

record RerankResult =
  results :: "RerankDocumentResult list"
  rr_model :: jsstring

text \<open>
  \<open>Queryable.type\<close> is a string at run time (\<open>QueryType\<close> is a compile-time union, and
  \<open>expandQuery\<close> casts to it unchecked).
\<close>

record Queryable =
  q_type :: jsstring
  q_text :: jsstring

record ExpandOptions =
  exp_context :: "jsstring option"
  includeLexical :: "bool option"

section \<open>openrouter.ts: the provider behind \<open>fetch\<close>\<close>

text \<open>
  The body of a request, before \<open>JSON.stringify\<close>: \<open>{model, input}\<close> for
  \<open>/embeddings\<close> (\<open>input\<close> one text or a list of texts) and
  \<open>{model, messages: [{role: "user", content}], max_tokens, temperature}\<close> for
  \<open>/chat/completions\<close>.
\<close>

datatype embed_input = InputText jsstring | InputTexts "jsstring list"

datatype request_body =
    EmbeddingsBody jsstring embed_input
  | ChatBody jsstring jsstring nat real

text \<open>
  The request \<open>fetch\<close> receives: the URL, the \<open>Authorization\<close> header and the body
  (the method and the other three headers are constants).
\<close>

record http_request =
  url :: jsstring
  authorization :: jsstring
  body :: request_body

text \<open>
  The JSON of a response: the two shapes the methods declare, and any other JSON value
  (\<open>as Promise<T>\<close> is not checked at run time). \<open>message\<close> and \<open>content\<close> may be
  missing or \<open>null\<close>.
\<close>

record embedding_item =
  item_embedding :: "real list"
  item_index :: int

datatype chat_message = Message (content: "jsstring option")

datatype chat_choice = Choice (message: "chat_message option")

datatype api_json =
    EmbeddingsJson "embedding_item list" jsstring
  | ChatJson "chat_choice list" jsstring
  | OtherJson

record http_response =
  ok :: bool
  status :: nat
  resp_text :: jsstring
  resp_json :: "api_json option"

text \<open>\<open>fetch\<close>: rejects, or resolves to a response.\<close>

type_synonym fetch = "http_request \<Rightarrow> error + http_response"

definition request :: "OpenRouterLLM \<Rightarrow> fetch \<Rightarrow> jsstring \<Rightarrow> request_body \<Rightarrow> error + api_json" where
  "request this fetch endpoint b =
     (case fetch \<lparr>url = baseUrl this @ endpoint,
                  authorization = js ''Bearer '' @ apiKey this,
                  body = b\<rparr> of
        Inl e \<Rightarrow> Inl e
      | Inr response \<Rightarrow>
          if \<not> ok response then Inl (ApiError (status response) (resp_text response))
          else (case resp_json response of None \<Rightarrow> Inl SyntaxError | Some j \<Rightarrow> Inr j))"

section \<open>openrouter.ts: embed, embedBatch, generate\<close>

text \<open>The \<open>try\<close> block of \<open>embed\<close>; \<open>response.data[0]?.embedding || []\<close>.\<close>

definition embed_try :: "OpenRouterLLM \<Rightarrow> fetch \<Rightarrow> jsstring \<Rightarrow> error + EmbeddingResult" where
  "embed_try this fetch text =
     (case request this fetch (js ''/embeddings'') (EmbeddingsBody (embedModel this) (InputText text)) of
        Inl e \<Rightarrow> Inl e
      | Inr (EmbeddingsJson data m) \<Rightarrow>
          Inr \<lparr>embedding = (case data of [] \<Rightarrow> [] | item # _ \<Rightarrow> item_embedding item),
               emb_model = m\<rparr>
      | Inr _ \<Rightarrow> Inl TypeError)"

text \<open>\<open>embed\<close>: the \<open>catch\<close> turns every throw of the block into \<open>null\<close>.\<close>

definition embed :: "OpenRouterLLM \<Rightarrow> fetch \<Rightarrow> jsstring \<Rightarrow> error + EmbeddingResult option" where
  "embed this fetch text =
     (case embed_try this fetch text of Inl e \<Rightarrow> Inr None | Inr r \<Rightarrow> Inr (Some r))"

text \<open>
  \<open>Array.prototype.sort(compare)\<close> is stable: \<open>a\<close> goes before \<open>b\<close> when
  \<open>compare(a, b) < 0\<close>, and elements that compare equal keep their order.
\<close>

fun insert_by :: "('a \<Rightarrow> 'a \<Rightarrow> int) \<Rightarrow> 'a \<Rightarrow> 'a list \<Rightarrow> 'a list" where
  "insert_by compare x [] = [x]"
| "insert_by compare x (y # ys) =
     (if compare x y \<le> 0 then x # y # ys else y # insert_by compare x ys)"

definition sort_by :: "('a \<Rightarrow> 'a \<Rightarrow> int) \<Rightarrow> 'a list \<Rightarrow> 'a list" where
  "sort_by compare xs = foldr (insert_by compare) xs []"

definition embedBatch_try ::
    "OpenRouterLLM \<Rightarrow> fetch \<Rightarrow> jsstring list \<Rightarrow> error + EmbeddingResult option list" where
  "embedBatch_try this fetch texts =
     (case request this fetch (js ''/embeddings'') (EmbeddingsBody (embedModel this) (InputTexts texts)) of
        Inl e \<Rightarrow> Inl e
      | Inr (EmbeddingsJson data m) \<Rightarrow>
          (let sorted = sort_by (\<lambda>a b. item_index a - item_index b) data
           in Inr (map (\<lambda>item. Some \<lparr>embedding = item_embedding item, emb_model = m\<rparr>) sorted))
      | Inr _ \<Rightarrow> Inl TypeError)"

definition embedBatch ::
    "OpenRouterLLM \<Rightarrow> fetch \<Rightarrow> jsstring list \<Rightarrow> error + EmbeddingResult option list" where
  "embedBatch this fetch texts =
     (if texts = [] then Inr []
      else case embedBatch_try this fetch texts of
             Inl e \<Rightarrow> Inr (map (\<lambda>_. None) texts)
           | Inr rs \<Rightarrow> Inr rs)"

text \<open>
  \<open>options.maxTokens || 500\<close> and \<open>options.temperature || 0\<close>: \<open>undefined\<close> and \<open>0\<close>
  are falsy.
\<close>

definition or_nat :: "nat option \<Rightarrow> nat \<Rightarrow> nat" where
  "or_nat a b = (case a of None \<Rightarrow> b | Some n \<Rightarrow> if n = 0 then b else n)"

definition or_real :: "real option \<Rightarrow> real \<Rightarrow> real" where
  "or_real a b = (case a of None \<Rightarrow> b | Some x \<Rightarrow> if x = 0 then b else x)"

text \<open>\<open>response.choices[0]?.message?.content || ""\<close>.\<close>

definition first_content :: "chat_choice list \<Rightarrow> jsstring" where
  "first_content choices =
     (case choices of
        [] \<Rightarrow> []
      | c # _ \<Rightarrow> (case message c of None \<Rightarrow> [] | Some m \<Rightarrow> or_str (content m) []))"

definition generate_try ::
    "OpenRouterLLM \<Rightarrow> fetch \<Rightarrow> jsstring \<Rightarrow> GenerateOptions \<Rightarrow> error + GenerateResult" where
  "generate_try this fetch prompt options =
     (case request this fetch (js ''/chat/completions'')
             (ChatBody (chatModel this) prompt
                (or_nat (maxTokens options) 500) (or_real (temperature options) 0)) of
        Inl e \<Rightarrow> Inl e
      | Inr (ChatJson choices m) \<Rightarrow>
          Inr \<lparr>gen_text = first_content choices, gen_model = m,
               gen_logprobs = None, gen_done = True\<rparr>
      | Inr _ \<Rightarrow> Inl TypeError)"

definition generate ::
    "OpenRouterLLM \<Rightarrow> fetch \<Rightarrow> jsstring \<Rightarrow> GenerateOptions \<Rightarrow> error + GenerateResult option" where
  "generate this fetch prompt options =
     (case generate_try this fetch prompt options of Inl e \<Rightarrow> Inr None | Inr r \<Rightarrow> Inr (Some r))"

section \<open>openrouter.ts: rerank\<close>

text \<open>
  \<open>documents.map((doc, index) => ...)\<close>; the score \<open>1 - index * 0.01\<close> is computed in
  double precision by the source and is exact here.
\<close>

fun map_index :: "(nat \<Rightarrow> 'a \<Rightarrow> 'b) \<Rightarrow> nat \<Rightarrow> 'a list \<Rightarrow> 'b list" where
  "map_index f i [] = []"
| "map_index f i (x # xs) = f i x # map_index f (Suc i) xs"

definition rerank :: "jsstring \<Rightarrow> RerankDocument list \<Rightarrow> error + RerankResult" where
  "rerank query documents =
     Inr \<lparr>results = map_index (\<lambda>i doc. \<lparr>rr_file = doc_file doc, rr_score = 1 - real i * 0.01, rr_index = i\<rparr>)
                       0 documents,
          rr_model = js ''none''\<rparr>"

section \<open>openrouter.ts: expandQuery\<close>

text \<open>
  The code units that \<open>\s\<close> matches and that \<open>trim()\<close> strips: the WhiteSpace and the
  LineTerminator productions. \<open>.\<close> matches every code unit but a line terminator.
\<close>

definition isLineTerminator :: "16 word \<Rightarrow> bool" where
  "isLineTerminator c = (c = 0x000A \<or> c = 0x000D \<or> c = 0x2028 \<or> c = 0x2029)"

definition isWhiteSpace :: "16 word \<Rightarrow> bool" where
  "isWhiteSpace c =
     (c = 0x0009 \<or> c = 0x000B \<or> c = 0x000C \<or> c = 0x0020 \<or> c = 0x00A0 \<or> c = 0x1680
      \<or> (0x2000 \<le> c \<and> c \<le> 0x200A) \<or> c = 0x202F \<or> c = 0x205F \<or> c = 0x3000
      \<or> c = 0xFEFF)"

definition isSpace :: "16 word \<Rightarrow> bool" where
  "isSpace c = (isWhiteSpace c \<or> isLineTerminator c)"

definition trim :: "jsstring \<Rightarrow> jsstring" where
  "trim s = rev (dropWhile isSpace (rev (dropWhile isSpace s)))"

text \<open>\<open>s.split("\n")\<close>: never empty; the second case of the \<open>case\<close> is not reached.\<close>

fun split_nl :: "jsstring \<Rightarrow> jsstring list" where
  "split_nl [] = [[]]"
| "split_nl (c # cs) =
     (if c = 0x000A then [] # split_nl cs
      else (case split_nl cs of l # ls \<Rightarrow> (c # l) # ls | [] \<Rightarrow> [[c]]))"

text \<open>
  Matching under the \<open>i\<close> flag (no \<open>u\<close> flag) compares the canonical forms of the
  pattern's and the input's code units. Canonicalize upper-cases a code unit, but keeps a
  code unit from 128 on whose upper case is below 128; so it maps \<open>a\<close>..\<open>z\<close> to
  \<open>A\<close>..\<open>Z\<close>, the other code units below 128 to themselves, and a code unit from 128 on
  to a code unit from 128 on. The pattern here has code units below 128 only, and for the
  comparison with those a code unit from 128 on can stand for its canonical form.
\<close>

definition Canonicalize :: "16 word \<Rightarrow> 16 word" where
  "Canonicalize ch = (if 0x61 \<le> ch \<and> ch \<le> 0x7A then ch - 0x20 else ch)"

text \<open>
  \<open>toLowerCase()\<close> on code units below 128 (all that group 1 of the pattern can hold):
  \<open>A\<close>..\<open>Z\<close> become \<open>a\<close>..\<open>z\<close>.
\<close>

definition toLowerCase :: "jsstring \<Rightarrow> jsstring" where
  "toLowerCase s = map (\<lambda>c. if 0x41 \<le> c \<and> c \<le> 0x5A then c + 0x20 else c) s"

text \<open>
  The pattern \<open>/^(vec|hyde):\s*(.+)$/i\<close>, matched from the start of the line (\<open>^\<close>
  without the \<open>m\<close> flag), with the backtracking of the source's engine: an alternative
  of group 1, the colon, then \<open>\s*\<close> greedy, giving back one code unit at a time while
  \<open>(.+)$\<close> fails on the rest of the line.
\<close>

definition match_literal :: "jsstring \<Rightarrow> jsstring \<Rightarrow> (jsstring \<times> jsstring) option" where
  "match_literal lit s =
     (if length lit \<le> length s \<and> map Canonicalize (take (length lit) s) = map Canonicalize lit
      then Some (take (length lit) s, drop (length lit) s) else None)"

definition match_dot_plus_end :: "jsstring \<Rightarrow> jsstring option" where
  "match_dot_plus_end s =
     (if s \<noteq> [] \<and> list_all (\<lambda>c. \<not> isLineTerminator c) s then Some s else None)"

fun match_space_rest :: "jsstring \<Rightarrow> jsstring option" where
  "match_space_rest [] = match_dot_plus_end []"
| "match_space_rest (c # cs) =
     (if isSpace c
      then (case match_space_rest cs of Some g \<Rightarrow> Some g | None \<Rightarrow> match_dot_plus_end (c # cs))
      else match_dot_plus_end (c # cs))"

definition match_alternative :: "jsstring \<Rightarrow> jsstring \<Rightarrow> (jsstring \<times> jsstring) option" where
  "match_alternative lit line =
     (case match_literal lit line of
        None \<Rightarrow> None
      | Some (g1, rest) \<Rightarrow>
          (case rest of
             [] \<Rightarrow> None
           | c # cs \<Rightarrow>
               if c = 0x003A
               then (case match_space_rest cs of None \<Rightarrow> None | Some g2 \<Rightarrow> Some (g1, g2))
               else None))"

definition line_match :: "jsstring \<Rightarrow> (jsstring \<times> jsstring) option" where
  "line_match line =
     (case match_alternative (js ''vec'') line of
        Some m \<Rightarrow> Some m
      | None \<Rightarrow> match_alternative (js ''hyde'') line)"

text \<open>The loop over the lines; \<open>push\<close> appends, so the variants keep the order of the lines.\<close>

fun parse_lines :: "jsstring \<Rightarrow> jsstring list \<Rightarrow> Queryable list" where
  "parse_lines query [] = []"
| "parse_lines query (line # lines) =
     (case line_match line of
        None \<Rightarrow> parse_lines query lines
      | Some (g1, g2) \<Rightarrow>
          (let type = toLowerCase g1; text = trim g2
           in if text \<noteq> [] \<and> text \<noteq> query
              then \<lparr>q_type = type, q_text = text\<rparr> # parse_lines query lines
              else parse_lines query lines))"

text \<open>The prompt; the context line is there when \<open>options.context\<close> is truthy.\<close>

definition expand_prompt :: "jsstring \<Rightarrow> jsstring option \<Rightarrow> jsstring" where
  "expand_prompt query ctx =
     js ''You are a search query optimizer. Generate alternative queries for semantic search.\<newline>''
     @ js ''\<newline>''
     @ js ''Original Query: '' @ query @ js ''\<newline>''
     @ (case ctx of
          None \<Rightarrow> []
        | Some c \<Rightarrow> if c = [] then [] else js ''\<newline>Context: '' @ c)
     @ js ''\<newline>''
     @ js ''\<newline>''
     @ js ''Generate exactly 3 outputs:\<newline>''
     @ js ''1. A rephrased version of the query using different words\<newline>''
     @ js ''2. A more specific version with additional relevant terms\<newline>''
     @ js ''3. A hypothetical document snippet (1-2 sentences) that would answer this query\<newline>''
     @ js ''\<newline>''
     @ js ''Format your response EXACTLY as:\<newline>''
     @ js ''vec: [rephrased query]\<newline>''
     @ js ''vec: [specific query]\<newline>''
     @ js ''hyde: [hypothetical document passage]\<newline>''
     @ js ''\<newline>''
     @ js ''Do not include any other text.''"

text \<open>
  \<open>expandQuery\<close> calls \<open>this.generate\<close>, a method looked up on the instance: the body
  is given here for any \<open>generate\<close> (one that throws, too), and \<open>expandQuery\<close> is the
  body with the class's own \<open>generate\<close>.
\<close>

type_synonym generate_fn = "jsstring \<Rightarrow> GenerateOptions \<Rightarrow> error + GenerateResult option"

definition original :: "jsstring \<Rightarrow> Queryable" where
  "original query = \<lparr>q_type = js ''vec'', q_text = query\<rparr>"

text \<open>The options of the call: \<open>{maxTokens: 300, temperature: 0.7}\<close>.\<close>

definition expand_options :: GenerateOptions where
  "expand_options = \<lparr>opt_model = None, maxTokens = Some 300, temperature = Some 0.7\<rparr>"

definition expandQuery_try :: "generate_fn \<Rightarrow> jsstring \<Rightarrow> ExpandOptions \<Rightarrow> error + Queryable list" where
  "expandQuery_try gen query options =
     (case gen (expand_prompt query (exp_context options)) expand_options of
        Inl e \<Rightarrow> Inl e
      | Inr None \<Rightarrow> Inr [original query]
      | Inr (Some result) \<Rightarrow>
          Inr (original query # parse_lines query (split_nl (trim (gen_text result)))))"

definition expandQuery_with :: "generate_fn \<Rightarrow> jsstring \<Rightarrow> ExpandOptions \<Rightarrow> error + Queryable list" where
  "expandQuery_with gen query options =
     (case expandQuery_try gen query options of
        Inl e \<Rightarrow> Inr [original query]
      | Inr qs \<Rightarrow> Inr qs)"

definition expandQuery :: "OpenRouterLLM \<Rightarrow> fetch \<Rightarrow> jsstring \<Rightarrow> ExpandOptions \<Rightarrow> error + Queryable list" where
  "expandQuery this fetch query options = expandQuery_with (generate this fetch) query options"

section \<open>llm.ts: the default instance\<close>

text \<open>
  An instance is an object with an identity: a reference into the list of the objects
  constructed so far. The state is that list, the module variable \<open>defaultLLM\<close>, and the
  instances whose \<open>dispose()\<close> has been called, in the order of the calls (\<open>dispose\<close>
  itself has an empty body). The functions run to completion, one after the other.
\<close>

type_synonym ref = nat

record module_state =
  objects :: "OpenRouterLLM list"
  defaultLLM :: "ref option"
  dispose_calls :: "ref list"

definition initial_state :: module_state where
  "initial_state = \<lparr>objects = [], defaultLLM = None, dispose_calls = []\<rparr>"

definition getDefaultLLM :: "env \<Rightarrow> module_state \<Rightarrow> (error + ref) \<times> module_state" where
  "getDefaultLLM env s =
     (case defaultLLM s of
        Some r \<Rightarrow> (Inr r, s)
      | None \<Rightarrow>
          (case OpenRouterLLM_constructor empty_config env of
             Inl e \<Rightarrow> (Inl e, s)
           | Inr obj \<Rightarrow>
               (Inr (length (objects s)),
                s\<lparr>objects := objects s @ [obj], defaultLLM := Some (length (objects s))\<rparr>)))"

definition setDefaultLLM :: "ref option \<Rightarrow> module_state \<Rightarrow> module_state" where
  "setDefaultLLM llm s = s\<lparr>defaultLLM := llm\<rparr>"

definition dispose :: "ref \<Rightarrow> module_state \<Rightarrow> module_state" where
  "dispose r s = s\<lparr>dispose_calls := dispose_calls s @ [r]\<rparr>"

definition disposeDefaultLLM :: "module_state \<Rightarrow> module_state" where
  "disposeDefaultLLM s =
     (case defaultLLM s of
        Some r \<Rightarrow> (dispose r s)\<lparr>defaultLLM := None\<rparr>
      | None \<Rightarrow> s)"

text \<open>Every reference the module holds is one of an object constructed before.\<close>

definition wf_state :: "module_state \<Rightarrow> bool" where
  "wf_state s = (case defaultLLM s of None \<Rightarrow> True | Some r \<Rightarrow> r < length (objects s))"

section \<open>Example values\<close>

text \<open>
  An instance with the default models, the environment that yields it, and three
  providers: one whose \<open>fetch\<close> rejects, one that answers with an error status, one that
  answers every request with the given JSON.
\<close>

definition test_llm :: OpenRouterLLM where
  "test_llm = \<lparr>apiKey = js ''sk-test'', embedModel = DEFAULT_EMBED_MODEL,
                chatModel = DEFAULT_CHAT_MODEL, baseUrl = OPENROUTER_API_BASE\<rparr>"

definition test_env :: env where
  "test_env = [js ''OPENROUTER_API_KEY'' \<mapsto> js ''sk-test'']"

definition fetch_rejects :: fetch where
  "fetch_rejects req = Inl FetchRejected"

definition fetch_status :: "nat \<Rightarrow> fetch" where
  "fetch_status code req =
     Inr \<lparr>ok = False, status = code, resp_text = js ''unavailable'', resp_json = None\<rparr>"

definition fetch_replies :: "api_json \<Rightarrow> fetch" where
  "fetch_replies j req = Inr \<lparr>ok = True, status = 200, resp_text = [], resp_json = Some j\<rparr>"

definition chat_reply :: api_json where
  "chat_reply =
     ChatJson
       [Choice (Some (Message (Some
          (js ''vec: alt one\<newline>HYDE: a passage\<newline>vec: x\<newline>lex: x y\<newline>hyde:  ''))))]
       (js ''m'')"

section \<open>Properties\<close>

subsection \<open>Construction and dimensions\<close>

lemma or_str_empty_iff: "or_str a b = [] \<longleftrightarrow> (a = None \<or> a = Some []) \<and> b = []"
  by (auto simp: or_str_def split: option.splits)

lemma constructor_throws_iff:
  "(\<exists>e. OpenRouterLLM_constructor config env = Inl e) \<longleftrightarrow>
     (cfg_apiKey config = None \<or> cfg_apiKey config = Some []) \<and>
     (env (js ''OPENROUTER_API_KEY'') = None \<or> env (js ''OPENROUTER_API_KEY'') = Some [])"
  by (auto simp: OpenRouterLLM_constructor_def Let_def or_str_empty_iff)

lemma test_env_constructs:
  "OpenRouterLLM_constructor empty_config test_env = Inr test_llm"
  by (simp add: OpenRouterLLM_constructor_def empty_config_def test_env_def test_llm_def
      or_str_def js_def)

lemma getEmbeddingDimensions_nonzero: "getEmbeddingDimensions this \<noteq> Number 0"
  by (simp add: getEmbeddingDimensions_def split: property.splits)

text \<open>
  C6. Constructing the client with no API key in the configuration and none in the
  environment throws the "API key required" error, and no instance is produced.
\<close>

theorem constructor_missing_key_throws:
  assumes "cfg_apiKey config = None" and "env (js ''OPENROUTER_API_KEY'') = None"
  shows "OpenRouterLLM_constructor config env =
           Inl (Error (js ''OpenRouter API key required. Set OPENROUTER_API_KEY environment variable.''))
         \<and> (\<nexists>llm. OpenRouterLLM_constructor config env = Inr llm)"
  using assms by (simp add: OpenRouterLLM_constructor_def or_str_def)

theorem constructor_missing_key_throws_witness:
  "cfg_apiKey empty_config = None
   \<and> [js ''QMD_EMBED_MODEL'' \<mapsto> js ''openai/text-embedding-3-small''] (js ''OPENROUTER_API_KEY'') = None
   \<and> OpenRouterLLM_constructor empty_config
         [js ''QMD_EMBED_MODEL'' \<mapsto> js ''openai/text-embedding-3-small''] =
       Inl (Error (js ''OpenRouter API key required. Set OPENROUTER_API_KEY environment variable.''))"
proof -
  let ?env = "[js ''QMD_EMBED_MODEL'' \<mapsto> js ''openai/text-embedding-3-small'']"
  have c: "cfg_apiKey empty_config = None"
    by (simp add: empty_config_def)
  have e: "?env (js ''OPENROUTER_API_KEY'') = None"
    by (simp add: js_def)
  from constructor_missing_key_throws [of empty_config ?env] c e show ?thesis by simp
qed

text \<open>
  C5, as the claim states it, fails: a client for a model with no entry in
  \<open>EMBEDDING_DIMENSIONS\<close> is constructed, and asking it for the dimensionality does not
  fail but returns 3072.
\<close>

theorem unknown_model_dimension_counterexample:
  "map_of EMBEDDING_DIMENSIONS (js ''acme/embed-v1'') = None
   \<and> OpenRouterLLM_constructor
         \<lparr>cfg_apiKey = Some (js ''sk-test''), cfg_embedModel = Some (js ''acme/embed-v1''),
          cfg_chatModel = None, cfg_baseUrl = None\<rparr> Map.empty =
       Inr \<lparr>apiKey = js ''sk-test'', embedModel = js ''acme/embed-v1'',
            chatModel = DEFAULT_CHAT_MODEL, baseUrl = OPENROUTER_API_BASE\<rparr>
   \<and> getEmbeddingDimensions
         \<lparr>apiKey = js ''sk-test'', embedModel = js ''acme/embed-v1'',
          chatModel = DEFAULT_CHAT_MODEL, baseUrl = OPENROUTER_API_BASE\<rparr> = Number 3072"
  by (simp add: EMBEDDING_DIMENSIONS_def OpenRouterLLM_constructor_def or_str_def
      getEmbeddingDimensions_def get_property_def Object_prototype_keys_def js_def)

text \<open>
  C5, amended. Asking for the dimensionality of a model that has no declared
  dimensionality does not fail: it returns the default 3072 (for every model name that is
  not the name of a property the table inherits from \<open>Object.prototype\<close>).
\<close>

theorem unknown_model_dimension_default:
  assumes "map_of EMBEDDING_DIMENSIONS (embedModel this) = None"
    and "embedModel this \<notin> set Object_prototype_keys"
  shows "getEmbeddingDimensions this = Number 3072"
  using assms by (simp add: getEmbeddingDimensions_def get_property_def)

theorem unknown_model_dimension_default_witness:
  "map_of EMBEDDING_DIMENSIONS (embedModel (test_llm\<lparr>embedModel := js ''voyage/voyage-3''\<rparr>)) = None
   \<and> embedModel (test_llm\<lparr>embedModel := js ''voyage/voyage-3''\<rparr>) \<notin> set Object_prototype_keys
   \<and> getEmbeddingDimensions (test_llm\<lparr>embedModel := js ''voyage/voyage-3''\<rparr>) = Number 3072"
proof -
  let ?llm = "test_llm\<lparr>embedModel := js ''voyage/voyage-3''\<rparr>"
  have a: "map_of EMBEDDING_DIMENSIONS (embedModel ?llm) = None"
    by (simp add: EMBEDDING_DIMENSIONS_def js_def)
  have b: "embedModel ?llm \<notin> set Object_prototype_keys"
    by (simp add: Object_prototype_keys_def js_def)
  from unknown_model_dimension_default [OF a b] a b show ?thesis by simp
qed

subsection \<open>Provider failures\<close>

lemma request_throws_iff:
  "(\<exists>e. request this fetch endpoint b = Inl e) \<longleftrightarrow>
     (case fetch \<lparr>url = baseUrl this @ endpoint, authorization = js ''Bearer '' @ apiKey this,
                  body = b\<rparr> of
        Inl e \<Rightarrow> True
      | Inr response \<Rightarrow> \<not> ok response \<or> resp_json response = None)"
  by (auto simp: request_def split: sum.splits option.splits)

lemma embed_returns: "\<exists>r. embed this fetch text = Inr r"
  by (simp add: embed_def split: sum.splits)

lemma generate_returns: "\<exists>r. generate this fetch prompt options = Inr r"
  by (simp add: generate_def split: sum.splits)

lemma embedBatch_returns: "\<exists>rs. embedBatch this fetch texts = Inr rs"
  by (simp add: embedBatch_def split: sum.splits)

text \<open>
  C3. When the provider request fails, \<open>embed\<close> and \<open>generate\<close> return \<open>null\<close> (they do
  not throw), and \<open>embedBatch\<close> returns one \<open>null\<close> per input text: a list of the length
  of the input that holds no vector.
\<close>

theorem provider_failure_yields_null:
  "(request this fetch (js ''/embeddings'') (EmbeddingsBody (embedModel this) (InputText input)) = Inl e_embed
      \<longrightarrow> embed this fetch input = Inr None)
   \<and> (request this fetch (js ''/chat/completions'')
          (ChatBody (chatModel this) prompt
             (or_nat (maxTokens options) 500) (or_real (temperature options) 0)) = Inl e_generate
      \<longrightarrow> generate this fetch prompt options = Inr None)
   \<and> (request this fetch (js ''/embeddings'') (EmbeddingsBody (embedModel this) (InputTexts texts)) = Inl e_batch
      \<longrightarrow> embedBatch this fetch texts = Inr (replicate (length texts) None))"
  by (simp add: embed_def embed_try_def generate_def generate_try_def embedBatch_def
      embedBatch_try_def map_replicate_const)

theorem provider_failure_yields_null_witness:
  "request test_llm fetch_rejects (js ''/embeddings'')
       (EmbeddingsBody (embedModel test_llm) (InputText (js ''hello''))) = Inl FetchRejected
   \<and> embed test_llm fetch_rejects (js ''hello'') = Inr None
   \<and> request test_llm (fetch_status 503) (js ''/chat/completions'')
       (ChatBody (chatModel test_llm) (js ''hi'')
          (or_nat (maxTokens expand_options) 500) (or_real (temperature expand_options) 0)) =
       Inl (ApiError 503 (js ''unavailable''))
   \<and> generate test_llm (fetch_status 503) (js ''hi'') expand_options = Inr None
   \<and> request test_llm fetch_rejects (js ''/embeddings'')
       (EmbeddingsBody (embedModel test_llm) (InputTexts [js ''a'', js ''b''])) = Inl FetchRejected
   \<and> embedBatch test_llm fetch_rejects [js ''a'', js ''b''] = Inr [None, None]"
proof -
  have r1: "request test_llm fetch_rejects (js ''/embeddings'')
      (EmbeddingsBody (embedModel test_llm) (InputText (js ''hello''))) = Inl FetchRejected"
    by (simp add: request_def fetch_rejects_def)
  have r2: "request test_llm (fetch_status 503) (js ''/chat/completions'')
      (ChatBody (chatModel test_llm) (js ''hi'')
         (or_nat (maxTokens expand_options) 500) (or_real (temperature expand_options) 0)) =
      Inl (ApiError 503 (js ''unavailable''))"
    by (simp add: request_def fetch_status_def)
  have r3: "request test_llm fetch_rejects (js ''/embeddings'')
      (EmbeddingsBody (embedModel test_llm) (InputTexts [js ''a'', js ''b''])) = Inl FetchRejected"
    by (simp add: request_def fetch_rejects_def)
  from provider_failure_yields_null
         [where this = test_llm and fetch = fetch_rejects and input = "js ''hello''"
            and e_embed = FetchRejected and texts = "[js ''a'', js ''b'']" and e_batch = FetchRejected]
       r1 r3
  have e1: "embed test_llm fetch_rejects (js ''hello'') = Inr None"
    and e3: "embedBatch test_llm fetch_rejects [js ''a'', js ''b''] = Inr [None, None]"
    by simp_all
  from provider_failure_yields_null
         [where this = test_llm and fetch = "fetch_status 503" and prompt = "js ''hi''"
            and options = expand_options and e_generate = "ApiError 503 (js ''unavailable'')"]
       r2
  have e2: "generate test_llm (fetch_status 503) (js ''hi'') expand_options = Inr None"
    by simp
  from r1 r2 r3 e1 e2 e3 show ?thesis by simp
qed

text \<open>
  C8. A successful embeddings response with no data items makes \<open>embed\<close> return a result
  (not \<open>null\<close>) whose embedding is the empty array; its length is not the dimensionality
  that \<open>getEmbeddingDimensions\<close> reports, which is never 0.
\<close>

theorem embed_empty_data_is_success:
  assumes "request this fetch (js ''/embeddings'')
             (EmbeddingsBody (embedModel this) (InputText text)) = Inr (EmbeddingsJson [] m)"
  shows "\<exists>r. embed this fetch text = Inr (Some r) \<and> embedding r = [] \<and> emb_model r = m
            \<and> getEmbeddingDimensions this \<noteq> Number (length (embedding r))"
  using assms getEmbeddingDimensions_nonzero by (simp add: embed_def embed_try_def)

theorem embed_empty_data_is_success_witness:
  "request test_llm (fetch_replies (EmbeddingsJson [] (js ''m''))) (js ''/embeddings'')
       (EmbeddingsBody (embedModel test_llm) (InputText (js ''hello''))) =
     Inr (EmbeddingsJson [] (js ''m''))
   \<and> embed test_llm (fetch_replies (EmbeddingsJson [] (js ''m''))) (js ''hello'') =
       Inr (Some \<lparr>embedding = [], emb_model = js ''m''\<rparr>)
   \<and> getEmbeddingDimensions test_llm = Number 3072"
proof -
  have r: "request test_llm (fetch_replies (EmbeddingsJson [] (js ''m''))) (js ''/embeddings'')
      (EmbeddingsBody (embedModel test_llm) (InputText (js ''hello''))) =
      Inr (EmbeddingsJson [] (js ''m''))"
    by (simp add: request_def fetch_replies_def)
  from embed_empty_data_is_success [OF r]
  have "embed test_llm (fetch_replies (EmbeddingsJson [] (js ''m''))) (js ''hello'') =
      Inr (Some \<lparr>embedding = [], emb_model = js ''m''\<rparr>)"
    by auto
  moreover have "getEmbeddingDimensions test_llm = Number 3072"
    by (simp add: getEmbeddingDimensions_def get_property_def EMBEDDING_DIMENSIONS_def
        test_llm_def DEFAULT_EMBED_MODEL_def)
  ultimately show ?thesis using r by simp
qed

subsection \<open>Query expansion\<close>

lemma match_literal_group:
  "match_literal lit s = Some (g1, rest) \<Longrightarrow> map Canonicalize g1 = map Canonicalize lit"
  by (auto simp: match_literal_def split: if_splits)

lemma lower_of_canonical:
  "Canonicalize c = Canonicalize d \<Longrightarrow> 0x61 \<le> d \<Longrightarrow> d \<le> 0x7A
     \<Longrightarrow> (if 0x41 \<le> c \<and> c \<le> 0x5A then c + 0x20 else c) = d"
  unfolding Canonicalize_def by (auto split: if_splits; uint_arith)

lemma group_vec:
  assumes "map Canonicalize g1 = map Canonicalize (js ''vec'')"
  shows "toLowerCase g1 = js ''vec''"
proof -
  from assms obtain a b c where g: "g1 = [a, b, c]"
    and "Canonicalize a = Canonicalize 0x76" "Canonicalize b = Canonicalize 0x65"
    "Canonicalize c = Canonicalize 0x63"
    by (auto simp: js_def map_eq_Cons_conv)
  then show ?thesis
    using lower_of_canonical [of a "0x76"] lower_of_canonical [of b "0x65"]
      lower_of_canonical [of c "0x63"]
    by (simp add: toLowerCase_def js_def)
qed

lemma group_hyde:
  assumes "map Canonicalize g1 = map Canonicalize (js ''hyde'')"
  shows "toLowerCase g1 = js ''hyde''"
proof -
  from assms obtain a b c d where g: "g1 = [a, b, c, d]"
    and "Canonicalize a = Canonicalize 0x68" "Canonicalize b = Canonicalize 0x79"
    "Canonicalize c = Canonicalize 0x64" "Canonicalize d = Canonicalize 0x65"
    by (auto simp: js_def map_eq_Cons_conv)
  then show ?thesis
    using lower_of_canonical [of a "0x68"] lower_of_canonical [of b "0x79"]
      lower_of_canonical [of c "0x64"] lower_of_canonical [of d "0x65"]
    by (simp add: toLowerCase_def js_def)
qed

lemma match_alternative_group:
  "match_alternative lit line = Some (g1, g2) \<Longrightarrow> map Canonicalize g1 = map Canonicalize lit"
  by (auto simp: match_alternative_def dest: match_literal_group
      split: option.splits list.splits if_splits)

lemma line_match_type:
  assumes "line_match line = Some (g1, g2)"
  shows "toLowerCase g1 = js ''vec'' \<or> toLowerCase g1 = js ''hyde''"
  using assms group_vec group_hyde match_alternative_group
  by (fastforce simp: line_match_def split: option.splits)

lemma parse_lines_elem:
  "x \<in> set (parse_lines query lines) \<Longrightarrow>
     (q_type x = js ''vec'' \<or> q_type x = js ''hyde'') \<and> q_text x \<noteq> [] \<and> q_text x \<noteq> query"
proof (induction lines)
  case Nil
  then show ?case by simp
next
  case (Cons line lines)
  show ?case
  proof (cases "line_match line")
    case None
    with Cons show ?thesis by simp
  next
    case (Some m)
    obtain g1 g2 where m: "m = (g1, g2)" by (cases m)
    from Some m line_match_type
    have t: "toLowerCase g1 = js ''vec'' \<or> toLowerCase g1 = js ''hyde''" by blast
    from Cons Some m t show ?thesis
      by (auto simp: Let_def split: if_splits)
  qed
qed

lemma lex_is_neither: "js ''vec'' \<noteq> js ''lex'' \<and> js ''hyde'' \<noteq> js ''lex''"
  by (simp add: js_def)

lemma expandQuery_with_cases:
  "expandQuery_with gen query options =
     (case gen (expand_prompt query (exp_context options)) expand_options of
        Inl e \<Rightarrow> Inr [original query]
      | Inr None \<Rightarrow> Inr [original query]
      | Inr (Some result) \<Rightarrow>
          Inr (original query # parse_lines query (split_nl (trim (gen_text result)))))"
  by (simp add: expandQuery_with_def expandQuery_try_def split: sum.splits option.splits)

lemma generate_chat_reply:
  "generate test_llm (fetch_replies chat_reply) prompt options =
     Inr (Some \<lparr>gen_text = js ''vec: alt one\<newline>HYDE: a passage\<newline>vec: x\<newline>lex: x y\<newline>hyde:  '',
                gen_model = js ''m'', gen_logprobs = None, gen_done = True\<rparr>)"
  by (simp add: generate_def generate_try_def request_def fetch_replies_def chat_reply_def
      first_content_def or_str_def js_def)

lemma parse_chat_reply:
  "parse_lines (js ''x'')
     (split_nl (trim (js ''vec: alt one\<newline>HYDE: a passage\<newline>vec: x\<newline>lex: x y\<newline>hyde:  ''))) =
     [\<lparr>q_type = js ''vec'', q_text = js ''alt one''\<rparr>,
      \<lparr>q_type = js ''hyde'', q_text = js ''a passage''\<rparr>]"
  by (simp add: js_def trim_def isSpace_def isWhiteSpace_def isLineTerminator_def
      line_match_def match_alternative_def match_literal_def match_dot_plus_end_def
      Canonicalize_def toLowerCase_def)

lemma expand_chat_reply:
  "expandQuery_with (generate test_llm (fetch_replies chat_reply)) (js ''x'') options =
     Inr [\<lparr>q_type = js ''vec'', q_text = js ''x''\<rparr>,
          \<lparr>q_type = js ''vec'', q_text = js ''alt one''\<rparr>,
          \<lparr>q_type = js ''hyde'', q_text = js ''a passage''\<rparr>]"
  by (simp add: expandQuery_with_cases generate_chat_reply parse_chat_reply original_def)

text \<open>
  C1. For every query \<open>q\<close>, \<open>expandQuery\<close> returns a list that starts with
  \<open>{type: "vec", text: q}\<close>: with any \<open>generate\<close>, and so with the class's own; when
  \<open>generate\<close> throws or returns \<open>null\<close>, that entry is the whole list.
\<close>

theorem expandQuery_original_first:
  "(\<exists>rest. expandQuery_with gen q options = Inr (\<lparr>q_type = js ''vec'', q_text = q\<rparr> # rest))
   \<and> (gen (expand_prompt q (exp_context options)) expand_options = Inl e
        \<longrightarrow> expandQuery_with gen q options = Inr [\<lparr>q_type = js ''vec'', q_text = q\<rparr>])
   \<and> (gen (expand_prompt q (exp_context options)) expand_options = Inr None
        \<longrightarrow> expandQuery_with gen q options = Inr [\<lparr>q_type = js ''vec'', q_text = q\<rparr>])
   \<and> (\<exists>rest. expandQuery this fetch q options = Inr (\<lparr>q_type = js ''vec'', q_text = q\<rparr> # rest))"
proof -
  let ?call = "\<lambda>g :: generate_fn. g (expand_prompt q (exp_context options)) expand_options"
  have first: "\<exists>rest. expandQuery_with g q options = Inr (original q # rest)" for g
  proof (cases "?call g")
    case (Inl err)
    then show ?thesis by (simp add: expandQuery_with_cases)
  next
    case (Inr result)
    then show ?thesis by (cases result) (simp_all add: expandQuery_with_cases)
  qed
  have thrown: "expandQuery_with gen q options = Inr [original q]" if "?call gen = Inl e"
    using that by (simp add: expandQuery_with_cases)
  have null: "expandQuery_with gen q options = Inr [original q]" if "?call gen = Inr None"
    using that by (simp add: expandQuery_with_cases)
  from first [of gen] first [of "generate this fetch"] thrown null show ?thesis
    by (simp add: expandQuery_def original_def)
qed

theorem expandQuery_original_first_witness:
  "(\<lambda>prompt options. Inl TypeError :: error + GenerateResult option)
       (expand_prompt (js ''x'') None) expand_options = Inl TypeError
   \<and> expandQuery_with (\<lambda>prompt options. Inl TypeError) (js ''x'')
         \<lparr>exp_context = None, includeLexical = None\<rparr> =
       Inr [\<lparr>q_type = js ''vec'', q_text = js ''x''\<rparr>]
   \<and> generate test_llm fetch_rejects (expand_prompt (js ''x'') None) expand_options = Inr None
   \<and> expandQuery test_llm fetch_rejects (js ''x'') \<lparr>exp_context = None, includeLexical = None\<rparr> =
       Inr [\<lparr>q_type = js ''vec'', q_text = js ''x''\<rparr>]"
proof -
  let ?options = "\<lparr>exp_context = None, includeLexical = None\<rparr>"
  have g: "generate test_llm fetch_rejects (expand_prompt (js ''x'') None) expand_options = Inr None"
    by (simp add: generate_def generate_try_def request_def fetch_rejects_def)
  from expandQuery_original_first
         [where gen = "\<lambda>prompt options. Inl TypeError" and q = "js ''x''"
            and options = ?options and e = TypeError]
  have a: "expandQuery_with (\<lambda>prompt options. Inl TypeError) (js ''x'') ?options =
      Inr [\<lparr>q_type = js ''vec'', q_text = js ''x''\<rparr>]"
    by simp
  from expandQuery_original_first
         [where gen = "generate test_llm fetch_rejects" and q = "js ''x''" and options = ?options]
       g
  have b: "expandQuery test_llm fetch_rejects (js ''x'') ?options =
      Inr [\<lparr>q_type = js ''vec'', q_text = js ''x''\<rparr>]"
    by (simp add: expandQuery_def)
  from a b g show ?thesis by simp
qed

text \<open>
  C7. Every element of the list \<open>expandQuery\<close> returns has the type \<open>"vec"\<close> or
  \<open>"hyde"\<close>, never \<open>"lex"\<close>, and every element after index 0 has a text that is not
  empty and is not the query.
\<close>

theorem expandQuery_variants:
  assumes "expandQuery_with gen q options = Inr qs"
  shows "(\<forall>x \<in> set qs. (q_type x = js ''vec'' \<or> q_type x = js ''hyde'') \<and> q_type x \<noteq> js ''lex'')
         \<and> (\<forall>i. 0 < i \<and> i < length qs \<longrightarrow> q_text (qs ! i) \<noteq> [] \<and> q_text (qs ! i) \<noteq> q)"
proof -
  from assms obtain rest where qs: "qs = original q # rest"
    and rest: "rest = [] \<or> (\<exists>ls. rest = parse_lines q ls)"
    by (auto simp: expandQuery_with_cases split: sum.splits option.splits)
  have elems: "(q_type x = js ''vec'' \<or> q_type x = js ''hyde'') \<and> q_text x \<noteq> [] \<and> q_text x \<noteq> q"
    if "x \<in> set rest" for x
    using that rest parse_lines_elem by auto
  have types: "(q_type x = js ''vec'' \<or> q_type x = js ''hyde'') \<and> q_type x \<noteq> js ''lex''"
    if "x \<in> set qs" for x
  proof (cases "x = original q")
    case True
    then show ?thesis using lex_is_neither by (simp add: original_def)
  next
    case False
    with that qs have "x \<in> set rest" by simp
    from elems [OF this] show ?thesis using lex_is_neither by metis
  qed
  have texts: "q_text (qs ! i) \<noteq> [] \<and> q_text (qs ! i) \<noteq> q" if "0 < i" "i < length qs" for i
  proof -
    from that qs have "qs ! i \<in> set rest"
      by (cases i) auto
    then show ?thesis using elems by blast
  qed
  from types texts show ?thesis by blast
qed

theorem expandQuery_variants_witness:
  "expandQuery_with (generate test_llm (fetch_replies chat_reply)) (js ''x'')
       \<lparr>exp_context = None, includeLexical = None\<rparr> =
     Inr [\<lparr>q_type = js ''vec'', q_text = js ''x''\<rparr>,
          \<lparr>q_type = js ''vec'', q_text = js ''alt one''\<rparr>,
          \<lparr>q_type = js ''hyde'', q_text = js ''a passage''\<rparr>]
   \<and> js ''hyde'' \<noteq> js ''lex'' \<and> js ''alt one'' \<noteq> js ''x'' \<and> js ''a passage'' \<noteq> js ''x''"
proof -
  let ?qs = "[\<lparr>q_type = js ''vec'', q_text = js ''x''\<rparr>,
              \<lparr>q_type = js ''vec'', q_text = js ''alt one''\<rparr>,
              \<lparr>q_type = js ''hyde'', q_text = js ''a passage''\<rparr>]"
  note h = expand_chat_reply [of "\<lparr>exp_context = None, includeLexical = None\<rparr>"]
  note v = expandQuery_variants [OF h]
  have t: "q_text (?qs ! i) \<noteq> [] \<and> q_text (?qs ! i) \<noteq> js ''x''"
    if "0 < i" "i < length ?qs" for i
    using v that by blast
  from v have "js ''hyde'' \<noteq> js ''lex''"
    by simp
  moreover from t [of 1] have "js ''alt one'' \<noteq> js ''x''"
    by simp
  moreover from t [of 2] have "js ''a passage'' \<noteq> js ''x''"
    by simp
  ultimately show ?thesis using h by simp
qed

subsection \<open>Batches and reranking\<close>

lemma insert_by_insort_key:
  fixes f :: "'a \<Rightarrow> int"
  shows "insert_by (\<lambda>a b. f a - f b) x xs = insort_key f x xs"
  by (induction xs) auto

lemma sort_by_sort_key:
  fixes f :: "'a \<Rightarrow> int"
  shows "sort_by (\<lambda>a b. f a - f b) xs = sort_key f xs"
  by (induction xs) (auto simp: sort_by_def sort_key_def insert_by_insort_key)

lemma sort_by_in_order:
  fixes f :: "'a \<Rightarrow> int"
  assumes "mset xs = mset ys" and "map f ys = map int [0..<n]"
  shows "sort_by (\<lambda>a b. f a - f b) xs = ys"
proof -
  have d: "distinct (map f ys)" and s: "sorted (map f ys)"
    using assms(2)
    by (simp_all add: distinct_map sorted_map strict_mono_on_def strict_mono_on_imp_mono_on)
  have "inj_on f (set ys)" using d by (simp add: distinct_map)
  then have "inj_on f (set xs)" using assms(1) by (metis mset_eq_setD)
  then show ?thesis
    using sort_key_inj_key_eq [OF assms(1) _ s] by (simp add: sort_by_sort_key)
qed

lemma map_index_eq: "map_index f k xs = map (\<lambda>(i, x). f i x) (zip [k..<k + length xs] xs)"
proof (induction xs arbitrary: k)
  case Nil
  then show ?case by simp
next
  case (Cons x xs)
  have "[k..<k + length (x # xs)] = k # [Suc k..<Suc k + length xs]"
    by (subst upt_rec) simp
  then show ?case using Cons.IH [of "Suc k"] by simp
qed

lemma length_map_index: "length (map_index f k xs) = length xs"
  by (simp add: map_index_eq)

lemma nth_map_index: "i < length xs \<Longrightarrow> map_index f k xs ! i = f (k + i) (xs ! i)"
  by (simp add: map_index_eq)

text \<open>
  C2. For a non-empty list of texts and a successful response that carries each index
  \<open>0..n-1\<close> once, in any order, position \<open>i\<close> of the result of \<open>embedBatch\<close> holds the
  embedding of the item whose \<open>index\<close> is \<open>i\<close>, and the result is the one the in-order
  response gives.
\<close>

theorem embedBatch_aligns_by_index:
  assumes nonempty: "texts \<noteq> []"
    and in_order: "map item_index ordered = map int [0..<length texts]"
    and permuted: "mset data = mset ordered"
    and response: "request this fetch (js ''/embeddings'')
                     (EmbeddingsBody (embedModel this) (InputTexts texts)) = Inr (EmbeddingsJson data m)"
    and response': "request this fetch' (js ''/embeddings'')
                     (EmbeddingsBody (embedModel this) (InputTexts texts)) = Inr (EmbeddingsJson ordered m)"
  shows "(\<exists>rs. embedBatch this fetch texts = Inr rs \<and> length rs = length texts
            \<and> (\<forall>i<length texts. \<exists>item \<in> set data. item_index item = int i
                   \<and> rs ! i = Some \<lparr>embedding = item_embedding item, emb_model = m\<rparr>))
         \<and> embedBatch this fetch texts = embedBatch this fetch' texts"
proof -
  let ?cmp = "\<lambda>a b. item_index a - item_index b"
  let ?out = "map (\<lambda>item. Some \<lparr>embedding = item_embedding item, emb_model = m\<rparr>) ordered"
  have len: "length ordered = length texts"
    using in_order by (metis length_map length_upt minus_nat.diff_0)
  have s1: "sort_by ?cmp data = ordered"
    using sort_by_in_order [OF permuted in_order] .
  have s2: "sort_by ?cmp ordered = ordered"
    using sort_by_in_order [OF refl in_order] .
  have r1: "embedBatch this fetch texts = Inr ?out"
    using nonempty response s1 by (simp add: embedBatch_def embedBatch_try_def)
  have r2: "embedBatch this fetch' texts = Inr ?out"
    using nonempty response' s2 by (simp add: embedBatch_def embedBatch_try_def)
  have at: "\<exists>item \<in> set data. item_index item = int i
              \<and> ?out ! i = Some \<lparr>embedding = item_embedding item, emb_model = m\<rparr>"
    if "i < length texts" for i
  proof -
    from that len have i: "i < length ordered" by simp
    have "item_index (ordered ! i) = map item_index ordered ! i"
      using i by simp
    also have "\<dots> = int i" using in_order that by simp
    finally have idx: "item_index (ordered ! i) = int i" .
    have "ordered ! i \<in> set data"
      using i permuted by (metis mset_eq_setD nth_mem)
    then show ?thesis using idx i by auto
  qed
  from r1 r2 len at show ?thesis by simp
qed

theorem embedBatch_aligns_by_index_witness:
  "embedBatch test_llm
       (fetch_replies (EmbeddingsJson
          [\<lparr>item_embedding = [0.3], item_index = 2\<rparr>, \<lparr>item_embedding = [0.1], item_index = 0\<rparr>,
           \<lparr>item_embedding = [0.2], item_index = 1\<rparr>] (js ''m'')))
       [js ''a'', js ''b'', js ''c''] =
     Inr [Some \<lparr>embedding = [0.1], emb_model = js ''m''\<rparr>,
          Some \<lparr>embedding = [0.2], emb_model = js ''m''\<rparr>,
          Some \<lparr>embedding = [0.3], emb_model = js ''m''\<rparr>]
   \<and> embedBatch test_llm
       (fetch_replies (EmbeddingsJson
          [\<lparr>item_embedding = [0.3], item_index = 2\<rparr>, \<lparr>item_embedding = [0.1], item_index = 0\<rparr>,
           \<lparr>item_embedding = [0.2], item_index = 1\<rparr>] (js ''m'')))
       [js ''a'', js ''b'', js ''c''] =
     embedBatch test_llm
       (fetch_replies (EmbeddingsJson
          [\<lparr>item_embedding = [0.1], item_index = 0\<rparr>, \<lparr>item_embedding = [0.2], item_index = 1\<rparr>,
           \<lparr>item_embedding = [0.3], item_index = 2\<rparr>] (js ''m'')))
       [js ''a'', js ''b'', js ''c'']"
proof -
  let ?texts = "[js ''a'', js ''b'', js ''c'']"
  let ?i0 = "\<lparr>item_embedding = [0.1], item_index = 0\<rparr>"
  let ?i1 = "\<lparr>item_embedding = [0.2], item_index = 1\<rparr>"
  let ?i2 = "\<lparr>item_embedding = [0.3], item_index = 2\<rparr>"
  let ?data = "[?i2, ?i0, ?i1]"
  let ?ordered = "[?i0, ?i1, ?i2]"
  have h1: "?texts \<noteq> []" by simp
  have "[0..<length ?texts] = [0, 1, 2]"
    by (simp add: upt_rec)
  then have h2: "map item_index ?ordered = map int [0..<length ?texts]"
    by simp
  have h3: "mset ?data = mset ?ordered"
    by (simp add: add_mset_commute)
  have h4: "request test_llm (fetch_replies (EmbeddingsJson ?data (js ''m''))) (js ''/embeddings'')
      (EmbeddingsBody (embedModel test_llm) (InputTexts ?texts)) = Inr (EmbeddingsJson ?data (js ''m''))"
    by (simp add: request_def fetch_replies_def)
  have h5: "request test_llm (fetch_replies (EmbeddingsJson ?ordered (js ''m''))) (js ''/embeddings'')
      (EmbeddingsBody (embedModel test_llm) (InputTexts ?texts)) = Inr (EmbeddingsJson ?ordered (js ''m''))"
    by (simp add: request_def fetch_replies_def)
  note a = embedBatch_aligns_by_index [OF h1 h2 h3 h4 h5]
  have b: "embedBatch test_llm (fetch_replies (EmbeddingsJson ?ordered (js ''m''))) ?texts =
      Inr [Some \<lparr>embedding = [0.1], emb_model = js ''m''\<rparr>,
           Some \<lparr>embedding = [0.2], emb_model = js ''m''\<rparr>,
           Some \<lparr>embedding = [0.3], emb_model = js ''m''\<rparr>]"
    using h5 by (simp add: embedBatch_def embedBatch_try_def sort_by_def)
  from a b show ?thesis by simp
qed

text \<open>
  C4. \<open>rerank\<close> keeps the order of its input: it returns one result per document, and
  the \<open>i\<close>-th result has the file of the \<open>i\<close>-th document and the index \<open>i\<close>.
\<close>

theorem rerank_preserves_order:
  "\<exists>rs. rerank query documents = Inr \<lparr>results = rs, rr_model = js ''none''\<rparr>
        \<and> length rs = length documents
        \<and> map rr_file rs = map doc_file documents
        \<and> (\<forall>i<length documents. rr_file (rs ! i) = doc_file (documents ! i) \<and> rr_index (rs ! i) = i)"
proof -
  let ?rs = "map_index (\<lambda>i doc. \<lparr>rr_file = doc_file doc, rr_score = 1 - real i * 0.01, rr_index = i\<rparr>)
               0 documents"
  have files: "map rr_file ?rs = map doc_file documents"
    by (rule nth_equalityI) (simp_all add: length_map_index nth_map_index)
  have "rerank query documents = Inr \<lparr>results = ?rs, rr_model = js ''none''\<rparr>"
    by (simp add: rerank_def)
  moreover have "length ?rs = length documents"
    by (simp add: length_map_index)
  moreover have "\<forall>i<length documents.
      rr_file (?rs ! i) = doc_file (documents ! i) \<and> rr_index (?rs ! i) = i"
    by (simp add: nth_map_index)
  ultimately show ?thesis using files by blast
qed

theorem rerank_preserves_order_witness:
  "rerank (js ''capital of France'')
       [\<lparr>doc_file = js ''doc1.txt'', doc_text = js ''First'', doc_title = None\<rparr>,
        \<lparr>doc_file = js ''doc2.txt'', doc_text = js ''Second'', doc_title = None\<rparr>,
        \<lparr>doc_file = js ''doc3.txt'', doc_text = js ''Third'', doc_title = None\<rparr>] =
     Inr \<lparr>results =
            [\<lparr>rr_file = js ''doc1.txt'', rr_score = 1, rr_index = 0\<rparr>,
             \<lparr>rr_file = js ''doc2.txt'', rr_score = 0.99, rr_index = 1\<rparr>,
             \<lparr>rr_file = js ''doc3.txt'', rr_score = 0.98, rr_index = 2\<rparr>],
          rr_model = js ''none''\<rparr>"
  using rerank_preserves_order
          [of "js ''capital of France''"
              "[\<lparr>doc_file = js ''doc1.txt'', doc_text = js ''First'', doc_title = None\<rparr>,
                \<lparr>doc_file = js ''doc2.txt'', doc_text = js ''Second'', doc_title = None\<rparr>,
                \<lparr>doc_file = js ''doc3.txt'', doc_text = js ''Third'', doc_title = None\<rparr>]"]
  by (simp add: rerank_def)

subsection \<open>The default instance\<close>

lemma getDefaultLLM_held:
  "defaultLLM s = Some r \<Longrightarrow> getDefaultLLM env s = (Inr r, s)"
  by (simp add: getDefaultLLM_def)

lemma getDefaultLLM_repeat:
  "defaultLLM s = Some r \<Longrightarrow> ((\<lambda>s. snd (getDefaultLLM env s)) ^^ n) s = s"
  by (induction n) (simp_all add: getDefaultLLM_held)

lemma getDefaultLLM_fresh:
  assumes "defaultLLM s = None" and "OpenRouterLLM_constructor empty_config env = Inr obj"
  shows "getDefaultLLM env s =
           (Inr (length (objects s)),
            s\<lparr>objects := objects s @ [obj], defaultLLM := Some (length (objects s))\<rparr>)"
  using assms by (simp add: getDefaultLLM_def)

lemma getDefaultLLM_throws:
  assumes "defaultLLM s = None" and "OpenRouterLLM_constructor empty_config env = Inl e"
  shows "getDefaultLLM env s = (Inl e, s)"
  using assms by (simp add: getDefaultLLM_def)

text \<open>
  C9. In a state whose reference, if any, is to a constructed object, and with an
  environment in which the constructor succeeds: \<open>getDefaultLLM\<close> constructs a new
  instance when none is held and stores it; while one is held, every call returns it and
  leaves the state as it is; after \<open>setDefaultLLM(null)\<close> or \<open>disposeDefaultLLM\<close> none
  is held, and the next \<open>getDefaultLLM\<close> constructs a new instance, not the one held
  before; \<open>disposeDefaultLLM\<close> calls \<open>dispose\<close> on the held instance and then clears
  the variable, and does nothing when none is held.
\<close>

theorem default_instance_singleton:
  assumes wf: "wf_state s"
    and key: "OpenRouterLLM_constructor empty_config env = Inr obj"
  shows "(defaultLLM s = None \<longrightarrow>
            getDefaultLLM env s =
              (Inr (length (objects s)),
               s\<lparr>objects := objects s @ [obj], defaultLLM := Some (length (objects s))\<rparr>))
         \<and> (\<forall>r. defaultLLM s = Some r \<longrightarrow>
               (\<forall>n. getDefaultLLM env (((\<lambda>t. snd (getDefaultLLM env t)) ^^ n) s) = (Inr r, s)))
         \<and> (\<forall>s2. s2 = setDefaultLLM None s \<or> s2 = disposeDefaultLLM s \<longrightarrow>
               defaultLLM s2 = None
               \<and> getDefaultLLM env s2 =
                   (Inr (length (objects s)),
                    s2\<lparr>objects := objects s @ [obj], defaultLLM := Some (length (objects s))\<rparr>)
               \<and> defaultLLM s \<noteq> Some (length (objects s)))
         \<and> (\<forall>r. defaultLLM s = Some r \<longrightarrow>
               disposeDefaultLLM s = setDefaultLLM None (dispose r s)
               \<and> dispose_calls (disposeDefaultLLM s) = dispose_calls s @ [r])
         \<and> (defaultLLM s = None \<longrightarrow> disposeDefaultLLM s = s)
         \<and> wf_state (snd (getDefaultLLM env s)) \<and> wf_state (disposeDefaultLLM s)
         \<and> wf_state (setDefaultLLM None s)"
proof -
  have first: "getDefaultLLM env s =
      (Inr (length (objects s)),
       s\<lparr>objects := objects s @ [obj], defaultLLM := Some (length (objects s))\<rparr>)"
    if "defaultLLM s = None"
    using getDefaultLLM_fresh [OF that key] .
  have again: "getDefaultLLM env (((\<lambda>t. snd (getDefaultLLM env t)) ^^ n) s) = (Inr r, s)"
    if "defaultLLM s = Some r" for r n
    using getDefaultLLM_repeat [OF that] getDefaultLLM_held [OF that] by simp
  have reset: "defaultLLM s2 = None
               \<and> getDefaultLLM env s2 =
                   (Inr (length (objects s)),
                    s2\<lparr>objects := objects s @ [obj], defaultLLM := Some (length (objects s))\<rparr>)
               \<and> defaultLLM s \<noteq> Some (length (objects s))"
    if "s2 = setDefaultLLM None s \<or> s2 = disposeDefaultLLM s" for s2
  proof -
    from that have n2: "defaultLLM s2 = None" and o2: "objects s2 = objects s"
      by (auto simp: setDefaultLLM_def disposeDefaultLLM_def dispose_def split: option.splits)
    have "defaultLLM s \<noteq> Some (length (objects s))"
      using wf by (auto simp: wf_state_def)
    with getDefaultLLM_fresh [OF n2 key] o2 n2 show ?thesis by simp
  qed
  have disp: "disposeDefaultLLM s = setDefaultLLM None (dispose r s)
              \<and> dispose_calls (disposeDefaultLLM s) = dispose_calls s @ [r]"
    if "defaultLLM s = Some r" for r
    using that by (simp add: disposeDefaultLLM_def setDefaultLLM_def dispose_def)
  have noop: "disposeDefaultLLM s = s" if "defaultLLM s = None"
    using that by (simp add: disposeDefaultLLM_def)
  have w1: "wf_state (snd (getDefaultLLM env s))"
    using wf key by (simp add: getDefaultLLM_def wf_state_def split: option.splits)
  have w2: "wf_state (disposeDefaultLLM s)"
    by (simp add: disposeDefaultLLM_def dispose_def wf_state_def split: option.splits)
  have w3: "wf_state (setDefaultLLM None s)"
    by (simp add: setDefaultLLM_def wf_state_def)
  from first again reset disp noop w1 w2 w3 show ?thesis by blast
qed

theorem default_instance_singleton_witness:
  "wf_state initial_state
   \<and> OpenRouterLLM_constructor empty_config test_env = Inr test_llm
   \<and> getDefaultLLM test_env initial_state =
       (Inr 0, \<lparr>objects = [test_llm], defaultLLM = Some 0, dispose_calls = []\<rparr>)
   \<and> getDefaultLLM test_env \<lparr>objects = [test_llm], defaultLLM = Some 0, dispose_calls = []\<rparr> =
       (Inr 0, \<lparr>objects = [test_llm], defaultLLM = Some 0, dispose_calls = []\<rparr>)
   \<and> disposeDefaultLLM \<lparr>objects = [test_llm], defaultLLM = Some 0, dispose_calls = []\<rparr> =
       \<lparr>objects = [test_llm], defaultLLM = None, dispose_calls = [0]\<rparr>
   \<and> getDefaultLLM test_env \<lparr>objects = [test_llm], defaultLLM = None, dispose_calls = [0]\<rparr> =
       (Inr 1, \<lparr>objects = [test_llm, test_llm], defaultLLM = Some 1, dispose_calls = [0]\<rparr>)
   \<and> disposeDefaultLLM initial_state = initial_state"
proof -
  let ?s1 = "\<lparr>objects = [test_llm], defaultLLM = Some 0, dispose_calls = []\<rparr>"
  let ?s2 = "\<lparr>objects = [test_llm], defaultLLM = None, dispose_calls = [0]\<rparr>"
  have w0: "wf_state initial_state"
    by (simp add: wf_state_def initial_state_def)
  have w1: "wf_state ?s1"
    by (simp add: wf_state_def)
  note a = default_instance_singleton [OF w0 test_env_constructs]
  note b = default_instance_singleton [OF w1 test_env_constructs]
  from a have a1: "getDefaultLLM test_env initial_state = (Inr 0, ?s1)"
    and a5: "disposeDefaultLLM initial_state = initial_state"
    by (simp_all add: initial_state_def)
  from b have "\<forall>n. getDefaultLLM test_env (((\<lambda>t. snd (getDefaultLLM test_env t)) ^^ n) ?s1) =
      (Inr 0, ?s1)"
    by simp
  then have b2: "getDefaultLLM test_env ?s1 = (Inr 0, ?s1)"
    using funpow_0 by metis
  from b have b4: "disposeDefaultLLM ?s1 = ?s2"
    by (simp add: setDefaultLLM_def dispose_def)
  from b have "getDefaultLLM test_env (disposeDefaultLLM ?s1) =
      (Inr (length (objects ?s1)),
       (disposeDefaultLLM ?s1)\<lparr>objects := objects ?s1 @ [test_llm],
                                defaultLLM := Some (length (objects ?s1))\<rparr>)"
    by blast
  with b4 have b3: "getDefaultLLM test_env ?s2 =
      (Inr 1, \<lparr>objects = [test_llm, test_llm], defaultLLM = Some 1, dispose_calls = [0]\<rparr>)"
    by simp
  from w0 test_env_constructs a1 a5 b2 b3 b4 show ?thesis by simp
qed

end
